theory Spec2Isabelle
  imports Main
begin

section \<open>Bytes, strings and the library functions the reader loop calls\<close>

text \<open>
  A Go \<open>string\<close> and a Go \<open>[]byte\<close> are sequences of bytes; both are modelled as
  \<open>string\<close> (a list of 8-bit characters). Go's \<open>int\<close> is taken to be 64 bits wide,
  as on every 64-bit platform.
\<close>

definition asciiSpace :: "char \<Rightarrow> bool" where
  "asciiSpace c \<longleftrightarrow>
     c = CHR 0x09 \<or> c = CHR 0x0A \<or> c = CHR 0x0B \<or> c = CHR 0x0C \<or> c = CHR 0x0D \<or> c = CHR 0x20"

text \<open>
  \<open>unicode.IsSpace\<close> holds of the six ASCII characters above, of U+0085 and U+00A0, and
  of the runes with the White_Space property: U+1680, U+2000 to U+200A, U+2028, U+2029,
  U+202F, U+205F and U+3000. These are their UTF-8 encodings beyond ASCII.
\<close>

definition spaceEncodings :: "string list" where
  "spaceEncodings =
    [[CHR 0xC2, CHR 0x85], [CHR 0xC2, CHR 0xA0], [CHR 0xE1, CHR 0x9A, CHR 0x80],
     [CHR 0xE2, CHR 0x80, CHR 0x80], [CHR 0xE2, CHR 0x80, CHR 0x81],
     [CHR 0xE2, CHR 0x80, CHR 0x82], [CHR 0xE2, CHR 0x80, CHR 0x83],
     [CHR 0xE2, CHR 0x80, CHR 0x84], [CHR 0xE2, CHR 0x80, CHR 0x85],
     [CHR 0xE2, CHR 0x80, CHR 0x86], [CHR 0xE2, CHR 0x80, CHR 0x87],
     [CHR 0xE2, CHR 0x80, CHR 0x88], [CHR 0xE2, CHR 0x80, CHR 0x89],
     [CHR 0xE2, CHR 0x80, CHR 0x8A], [CHR 0xE2, CHR 0x80, CHR 0xA8],
     [CHR 0xE2, CHR 0x80, CHR 0xA9], [CHR 0xE2, CHR 0x80, CHR 0xAF],
     [CHR 0xE2, CHR 0x81, CHR 0x9F], [CHR 0xE3, CHR 0x80, CHR 0x80]]"

text \<open>
  The width in bytes of the white-space rune a string starts with (0 when it starts with
  none), and of the one it ends with. A multi-byte rune counts only in its valid
  encoding, as \<open>utf8.DecodeRune\<close> and \<open>utf8.DecodeLastRune\<close> read it.
\<close>

definition leadingSpace :: "string \<Rightarrow> nat" where
  "leadingSpace s =
     (case s of [] \<Rightarrow> 0
      | c # _ \<Rightarrow>
          if asciiSpace c then 1
          else (case find (\<lambda>e. take (length e) s = e) spaceEncodings of
                  None \<Rightarrow> 0 | Some e \<Rightarrow> length e))"

definition trailingSpace :: "string \<Rightarrow> nat" where
  "trailingSpace s =
     (case rev s of [] \<Rightarrow> 0
      | c # _ \<Rightarrow>
          if asciiSpace c then 1
          else (case find (\<lambda>e. take (length e) (rev s) = rev e) spaceEncodings of
                  None \<Rightarrow> 0 | Some e \<Rightarrow> length e))"

lemma leadingSpace_le: "leadingSpace s \<le> length s"
proof (cases s)
  case Nil
  then show ?thesis by (simp add: leadingSpace_def)
next
  case (Cons c t)
  show ?thesis
  proof (cases "find (\<lambda>e. take (length e) s = e) spaceEncodings")
    case None
    with Cons show ?thesis by (simp add: leadingSpace_def)
  next
    case (Some e)
    then have "take (length e) s = e" by (auto simp: find_Some_iff)
    then have "length (take (length e) s) = length e" by simp
    then have "length e \<le> length s" by simp
    with Cons Some show ?thesis by (simp add: leadingSpace_def)
  qed
qed

lemma trailingSpace_le: "trailingSpace s \<le> length s"
proof (cases "rev s")
  case Nil
  then show ?thesis by (simp add: trailingSpace_def)
next
  case (Cons c t)
  show ?thesis
  proof (cases "find (\<lambda>e. take (length e) (rev s) = rev e) spaceEncodings")
    case None
    with Cons show ?thesis by (simp add: trailingSpace_def)
  next
    case (Some e)
    then have "take (length e) (rev s) = rev e" by (auto simp: find_Some_iff)
    then have "length (take (length e) (rev s)) = length (rev e)" by simp
    then have "length (rev e) \<le> length (rev s)" by simp
    with Cons Some show ?thesis
      by (cases "asciiSpace c") (simp_all add: trailingSpace_def)
  qed
qed

function trimLeft :: "string \<Rightarrow> string" where
  "trimLeft s = (if leadingSpace s = 0 then s else trimLeft (drop (leadingSpace s) s))"
  by pat_completeness auto
termination
proof (relation "measure length")
  show "wf (measure length)" by simp
next
  fix s :: string
  assume "leadingSpace s \<noteq> 0"
  moreover have "leadingSpace s \<le> length s" by (rule leadingSpace_le)
  ultimately show "(drop (leadingSpace s) s, s) \<in> measure length" by simp
qed

function trimRight :: "string \<Rightarrow> string" where
  "trimRight s =
     (if trailingSpace s = 0 then s else trimRight (take (length s - trailingSpace s) s))"
  by pat_completeness auto
termination
proof (relation "measure length")
  show "wf (measure length)" by simp
next
  fix s :: string
  assume "trailingSpace s \<noteq> 0"
  moreover have "trailingSpace s \<le> length s" by (rule trailingSpace_le)
  ultimately show "(take (length s - trailingSpace s) s, s) \<in> measure length" by simp
qed

declare trimLeft.simps [simp del] trimRight.simps [simp del]

text \<open>\<open>strings.TrimSpace\<close> and \<open>bytes.TrimSpace\<close>: all leading and trailing white space removed.\<close>

definition TrimSpace :: "string \<Rightarrow> string" where
  "TrimSpace s = trimRight (trimLeft s)"

text \<open>
  \<open>strings.Split(s, ":")\<close>: the substrings between the colons, one more than there
  are colons.
\<close>

fun Split :: "string \<Rightarrow> string list" where
  "Split [] = [[]]"
| "Split (c # s) =
     (if c = CHR '':'' then [] # Split s
      else (case Split s of p # ps \<Rightarrow> (c # p) # ps | [] \<Rightarrow> [[c]]))"

text \<open>
  \<open>strconv.Atoi\<close> for a 64-bit \<open>int\<close>: an optional sign, then one or more decimal
  digits, the value within the range of \<open>int\<close>. \<open>None\<close> is the error (syntax or range).
\<close>

definition isDigit :: "char \<Rightarrow> bool" where
  "isDigit c \<longleftrightarrow> (48::nat) \<le> of_char c \<and> of_char c \<le> (57::nat)"

definition digitsVal :: "string \<Rightarrow> int" where
  "digitsVal ds = foldl (\<lambda>n c. n * 10 + (int (of_char c) - 48)) 0 ds"

definition Atoi :: "string \<Rightarrow> int option" where
  "Atoi s =
     (case s of [] \<Rightarrow> None
      | c # t \<Rightarrow>
          let neg = (c = CHR ''-'');
              ds = (if c = CHR ''-'' \<or> c = CHR ''+'' then t else s)
          in if ds = [] \<or> \<not> list_all isDigit ds then None
             else let n = (if neg then - digitsVal ds else digitsVal ds)
                  in if - (2 ^ 63) \<le> n \<and> n < 2 ^ 63 then Some n else None)"

subsection \<open>The input stream\<close>

text \<open>
  The connection delivers a finite sequence of bytes and then fails every read with an
  error: \<open>io.EOF\<close> when the peer closed the stream, some other error otherwise.
\<close>

datatype io_error = EOF | ErrOther

text \<open>
  \<open>bufio.Reader.ReadBytes('\n')\<close>: the bytes up to and including the first line feed,
  and what is left. \<open>None\<close> when the stream ends before a line feed: the call then
  returns the stream's error.
\<close>

fun ReadBytes :: "string \<Rightarrow> (string \<times> string) option" where
  "ReadBytes [] = None"
| "ReadBytes (c # s) =
     (if c = CHR 0x0A then Some ([c], s)
      else (case ReadBytes s of None \<Rightarrow> None | Some (d, r) \<Rightarrow> Some (c # d, r)))"

lemma ReadBytes_length: "ReadBytes s = Some (d, r) \<Longrightarrow> length r < length s"
  by (induction s arbitrary: d r) (auto split: if_splits option.splits)

text \<open>
  \<open>io.ReadFull(r, buf)\<close> with \<open>len(buf) = n\<close>: \<open>n\<close> bytes, or the stream's error when
  no byte arrives, or \<open>io.ErrUnexpectedEOF\<close> when the stream ends after some but not
  all of them.
\<close>

datatype read_full = Full string string | ReadErr io_error | UnexpectedEOF

definition ReadFull :: "io_error \<Rightarrow> string \<Rightarrow> nat \<Rightarrow> read_full" where
  "ReadFull fin s n =
     (if n \<le> length s then Full (take n s) (drop n s)
      else if s = [] then ReadErr fin
      else if fin = EOF then UnexpectedEOF else ReadErr fin)"

section \<open>The header loop of listen\<close>

datatype fatal = FailedToReadLine | BadContentLength | FailedToReadBody
  | FailedToUnmarshal | InitializationFailed | FailedToReadCapabilities

datatype panic = IndexOutOfRange | MakesliceLenOutOfRange

text \<open>
  Lines 100 and 101 of main.go: the line is split at every colon; the first part is the
  name, the second the value, both trimmed. \<open>parts[1]\<close> of a one-element slice is
  Go's run-time panic (\<open>None\<close>).
\<close>

definition header_entry :: "string \<Rightarrow> (string \<times> string) option" where
  "header_entry line =
     (let parts = Split line
      in if length parts < 2 then None
         else Some (TrimSpace (parts ! 0), TrimSpace (parts ! 1)))"

datatype headers_result =
    HBreak "string \<rightharpoonup> string" string
  | HReturn
  | HFatal fatal
  | HPanic panic

function read_headers :: "io_error \<Rightarrow> (string \<rightharpoonup> string) \<Rightarrow> string \<Rightarrow> headers_result" where
  "read_headers fin headers s =
     (case ReadBytes s of
        None \<Rightarrow> (if fin = EOF then HReturn else HFatal FailedToReadLine)
      | Some (data, rest) \<Rightarrow>
          let line = TrimSpace data
          in if length line = 0 then HBreak headers rest
             else (case header_entry line of
                     None \<Rightarrow> HPanic IndexOutOfRange
                   | Some (name, v) \<Rightarrow> read_headers fin (headers(name \<mapsto> v)) rest))"
  by pat_completeness auto
termination
  by (relation "measure (\<lambda>(fin, headers, s). length s)") (auto dest: ReadBytes_length)

declare read_headers.simps [simp del]

section \<open>encoding/json, as far as the program uses it\<close>

text \<open>
  The program hands message bodies to Go's \<open>json.Unmarshal\<close> and \<open>json.Marshal\<close>. This
  section models them on the program's own types: the JSON grammar as Go's scanner
  accepts it, string unquoting, and the assignment of object members to struct fields.
\<close>

abbreviation byte :: "char \<Rightarrow> nat" where
  "byte \<equiv> of_char"

definition between :: "nat \<Rightarrow> nat \<Rightarrow> char \<Rightarrow> bool" where
  "between lo hi c \<longleftrightarrow> lo \<le> byte c \<and> byte c \<le> hi"

text \<open>
  \<open>tailOK lo hi n t\<close>: \<open>t\<close> starts with \<open>n\<close> bytes that continue a UTF-8 sequence, the
  first of them between \<open>lo\<close> and \<open>hi\<close>.
\<close>

definition tailOK :: "nat \<Rightarrow> nat \<Rightarrow> nat \<Rightarrow> string \<Rightarrow> bool" where
  "tailOK lo hi n t \<longleftrightarrow>
     n \<le> length t \<and> list_all (between 0x80 0xBF) (take n t) \<and>
     (case t of [] \<Rightarrow> False | b # _ \<Rightarrow> between lo hi b)"

text \<open>
  The size \<open>utf8.DecodeRune\<close> reports for the rune a string starts with, when that rune
  is validly encoded; 0 stands for Go's \<open>(RuneError, 1)\<close> on an invalid encoding, and
  for the empty string.
\<close>

definition utf8Len :: "string \<Rightarrow> nat" where
  "utf8Len s =
     (case s of [] \<Rightarrow> 0
      | a # t \<Rightarrow>
          let x = byte a
          in if x < 0x80 then 1
             else if 0xC2 \<le> x \<and> x \<le> 0xDF then (if tailOK 0x80 0xBF 1 t then 2 else 0)
             else if x = 0xE0 then (if tailOK 0xA0 0xBF 2 t then 3 else 0)
             else if x = 0xED then (if tailOK 0x80 0x9F 2 t then 3 else 0)
             else if 0xE1 \<le> x \<and> x \<le> 0xEF then (if tailOK 0x80 0xBF 2 t then 3 else 0)
             else if x = 0xF0 then (if tailOK 0x90 0xBF 3 t then 4 else 0)
             else if 0xF1 \<le> x \<and> x \<le> 0xF3 then (if tailOK 0x80 0xBF 3 t then 4 else 0)
             else if x = 0xF4 then (if tailOK 0x80 0x8F 3 t then 4 else 0)
             else 0)"

lemma utf8Len_le: "utf8Len s \<le> length s"
  by (cases s) (auto simp: utf8Len_def tailOK_def Let_def)

text \<open>\<open>utf8.EncodeRune\<close>; a surrogate or a value beyond U+10FFFF encodes as U+FFFD.\<close>

definition replacementChar :: string where
  "replacementChar = [CHR 0xEF, CHR 0xBF, CHR 0xBD]"

definition EncodeRune :: "nat \<Rightarrow> string" where
  "EncodeRune r =
     (if r < 0x80 then [char_of r]
      else if r < 0x800 then [char_of (0xC0 + r div 64), char_of (0x80 + r mod 64)]
      else if (0xD800 \<le> r \<and> r < 0xE000) \<or> 0x10FFFF < r then replacementChar
      else if r < 0x10000 then
        [char_of (0xE0 + r div 4096), char_of (0x80 + (r div 64) mod 64), char_of (0x80 + r mod 64)]
      else
        [char_of (0xF0 + r div 262144), char_of (0x80 + (r div 4096) mod 64),
         char_of (0x80 + (r div 64) mod 64), char_of (0x80 + r mod 64)])"

definition hexDigit :: "char \<Rightarrow> nat option" where
  "hexDigit c =
     (if between 0x30 0x39 c then Some (byte c - 0x30)
      else if between 0x61 0x66 c then Some (byte c - 0x61 + 10)
      else if between 0x41 0x46 c then Some (byte c - 0x41 + 10)
      else None)"

text \<open>\<open>getu4\<close>: the value of a \<open>\uXXXX\<close> escape a string starts with.\<close>

definition getu4 :: "string \<Rightarrow> nat option" where
  "getu4 s =
     (case s of
        b # u # h1 # h2 # h3 # h4 # _ \<Rightarrow>
          if b = CHR 0x5C \<and> u = CHR ''u'' then
            (case (hexDigit h1, hexDigit h2, hexDigit h3, hexDigit h4) of
               (Some a, Some b, Some c, Some d) \<Rightarrow> Some (a * 4096 + b * 256 + c * 16 + d)
             | _ \<Rightarrow> None)
          else None
      | _ \<Rightarrow> None)"

text \<open>The character a one-letter escape stands for.\<close>

definition escapeChar :: "char \<Rightarrow> char option" where
  "escapeChar e =
     (if e = CHR 0x22 \<or> e = CHR 0x5C \<or> e = CHR ''/'' then Some e
      else if e = CHR ''b'' then Some (CHR 0x08)
      else if e = CHR ''f'' then Some (CHR 0x0C)
      else if e = CHR ''n'' then Some (CHR 0x0A)
      else if e = CHR ''r'' then Some (CHR 0x0D)
      else if e = CHR ''t'' then Some (CHR 0x09)
      else None)"

definition emit :: "string \<Rightarrow> (string \<times> string) option \<Rightarrow> (string \<times> string) option" where
  "emit out r = (case r of None \<Rightarrow> None | Some (d, rest) \<Rightarrow> Some (out @ d, rest))"

text \<open>
  A string literal after its opening quote: the unquoted value and what follows the
  closing quote. The scanner rejects a control character and an unknown escape;
  unquoting replaces an invalid UTF-8 byte and a lone surrogate escape by U+FFFD and
  joins a surrogate pair.
\<close>

function parseString :: "string \<Rightarrow> (string \<times> string) option" where
  "parseString s =
     (case s of [] \<Rightarrow> None
      | c # t \<Rightarrow>
          if c = CHR 0x22 then Some ([], t)
          else if c = CHR 0x5C then
            (case t of [] \<Rightarrow> None
             | e # u \<Rightarrow>
                 if e = CHR ''u'' then
                   (case getu4 s of None \<Rightarrow> None
                    | Some rr \<Rightarrow>
                        if 0xD800 \<le> rr \<and> rr < 0xE000 then
                          (case getu4 (drop 6 s) of
                             None \<Rightarrow> emit replacementChar (parseString (drop 6 s))
                           | Some rr1 \<Rightarrow>
                               if rr < 0xDC00 \<and> 0xDC00 \<le> rr1 \<and> rr1 < 0xE000 then
                                 emit (EncodeRune ((rr - 0xD800) * 1024 + (rr1 - 0xDC00) + 0x10000))
                                   (parseString (drop 12 s))
                               else emit replacementChar (parseString (drop 6 s)))
                        else emit (EncodeRune rr) (parseString (drop 6 s)))
                 else (case escapeChar e of None \<Rightarrow> None
                       | Some x \<Rightarrow> emit [x] (parseString u)))
          else if byte c < 0x20 then None
          else if byte c < 0x80 then emit [c] (parseString t)
          else if utf8Len s = 0 then emit replacementChar (parseString t)
          else emit (take (utf8Len s) s) (parseString (drop (utf8Len s) s)))"
  by pat_completeness auto
termination
proof (relation "measure length")
  fix s :: string and c t
  assume "s = c # t" "utf8Len s \<noteq> 0"
  then show "(drop (utf8Len s) s, s) \<in> measure length" by simp
qed auto

declare parseString.simps [simp del]

lemma emit_length:
  "emit out r = Some (d, rest) \<Longrightarrow> \<exists>d'. r = Some (d', rest)"
  by (auto simp: emit_def split: option.splits)

text \<open>
  A number literal: \<open>-? (0 | [1-9][0-9]*) (. [0-9]+)? ([eE] [+-]? [0-9]+)?\<close>. The result is
  the literal's text and what follows it.
\<close>

definition parseFrac :: "string \<Rightarrow> (string \<times> string) option" where
  "parseFrac s =
     (case s of
        c # t \<Rightarrow>
          if c = CHR ''.'' then
            (if takeWhile isDigit t = [] then None
             else Some (c # takeWhile isDigit t, dropWhile isDigit t))
          else Some ([], s)
      | [] \<Rightarrow> Some ([], s))"

definition parseExp :: "string \<Rightarrow> (string \<times> string) option" where
  "parseExp s =
     (case s of
        c # t \<Rightarrow>
          if c = CHR ''e'' \<or> c = CHR ''E'' then
            (let sgn = (case t of [] \<Rightarrow> [] | x # _ \<Rightarrow> if x = CHR ''+'' \<or> x = CHR ''-'' then [x] else []);
                 t' = drop (length sgn) t
             in if takeWhile isDigit t' = [] then None
                else Some (c # sgn @ takeWhile isDigit t', dropWhile isDigit t'))
          else Some ([], s)
      | [] \<Rightarrow> Some ([], s))"

definition parseInt :: "string \<Rightarrow> (string \<times> string) option" where
  "parseInt s =
     (case s of [] \<Rightarrow> None
      | c # t \<Rightarrow>
          if c = CHR ''0'' then Some ([c], t)
          else if isDigit c then Some (c # takeWhile isDigit t, dropWhile isDigit t)
          else None)"

definition parseNumber :: "string \<Rightarrow> (string \<times> string) option" where
  "parseNumber s =
     (let sgn = (case s of [] \<Rightarrow> [] | c # _ \<Rightarrow> if c = CHR ''-'' then [c] else [])
      in case parseInt (drop (length sgn) s) of None \<Rightarrow> None
         | Some (i, r1) \<Rightarrow>
             (case parseFrac r1 of None \<Rightarrow> None
              | Some (f, r2) \<Rightarrow>
                  (case parseExp r2 of None \<Rightarrow> None
                   | Some (e, r3) \<Rightarrow> Some (sgn @ i @ f @ e, r3))))"

text \<open>
  A JSON value. A string is held unquoted, a number as its literal; each member of an
  object carries the bytes of its value as they stood in the input, which is what a
  \<open>json.RawMessage\<close> field receives.
\<close>

datatype json = JNull | JBool bool | JNumber string | JString string
  | JArray "json list" | JObject "(string \<times> string \<times> json) list"

definition isWS :: "char \<Rightarrow> bool" where
  "isWS c \<longleftrightarrow> c = CHR 0x20 \<or> c = CHR 0x09 \<or> c = CHR 0x0D \<or> c = CHR 0x0A"

definition skipWS :: "string \<Rightarrow> string" where
  "skipWS s = dropWhile isWS s"

text \<open>
  \<open>parseValue d s\<close> reads the value \<open>s\<close> starts with, allowing \<open>d\<close> more levels of
  nesting (Go's scanner refuses a nesting deeper than 10000). \<open>parseElems d n s\<close> and
  \<open>parseMembers d n s\<close> read the rest of an array or object from its next element; \<open>n\<close>
  bounds the number of elements by the number of bytes left.
\<close>

fun parseValue :: "nat \<Rightarrow> string \<Rightarrow> (json \<times> string) option"
  and parseElems :: "nat \<Rightarrow> nat \<Rightarrow> string \<Rightarrow> (json list \<times> string) option"
  and parseMembers :: "nat \<Rightarrow> nat \<Rightarrow> string \<Rightarrow> ((string \<times> string \<times> json) list \<times> string) option"
where
  "parseValue d s =
     (case s of [] \<Rightarrow> None
      | c # t \<Rightarrow>
          if c = CHR ''{'' then
            (if d = 0 then None
             else (case skipWS t of
                     [] \<Rightarrow> None
                   | x # r \<Rightarrow>
                       if x = CHR ''}'' then Some (JObject [], r)
                       else (case parseMembers (d - 1) (length (x # r)) (x # r) of
                               None \<Rightarrow> None
                             | Some (ms, r') \<Rightarrow> Some (JObject ms, r'))))
          else if c = CHR ''['' then
            (if d = 0 then None
             else (case skipWS t of
                     [] \<Rightarrow> None
                   | x # r \<Rightarrow>
                       if x = CHR '']'' then Some (JArray [], r)
                       else (case parseElems (d - 1) (length (x # r)) (x # r) of
                               None \<Rightarrow> None
                             | Some (vs, r') \<Rightarrow> Some (JArray vs, r'))))
          else if c = CHR 0x22 then
            (case parseString t of None \<Rightarrow> None | Some (x, r) \<Rightarrow> Some (JString x, r))
          else if c = CHR ''-'' \<or> isDigit c then
            (case parseNumber s of None \<Rightarrow> None | Some (x, r) \<Rightarrow> Some (JNumber x, r))
          else if take 4 s = ''true'' then Some (JBool True, drop 4 s)
          else if take 5 s = ''false'' then Some (JBool False, drop 5 s)
          else if take 4 s = ''null'' then Some (JNull, drop 4 s)
          else None)"
| "parseElems d n s =
     (if n = 0 then None
      else (case parseValue d s of None \<Rightarrow> None
            | Some (v, r) \<Rightarrow>
                (case skipWS r of [] \<Rightarrow> None
                 | x # r' \<Rightarrow>
                     if x = CHR '','' then
                       (case parseElems d (n - 1) (skipWS r') of None \<Rightarrow> None
                        | Some (vs, r'') \<Rightarrow> Some (v # vs, r''))
                     else if x = CHR '']'' then Some ([v], r')
                     else None)))"
| "parseMembers d n s =
     (if n = 0 then None
      else (case s of [] \<Rightarrow> None
            | q # t \<Rightarrow>
                if q \<noteq> CHR 0x22 then None
                else (case parseString t of None \<Rightarrow> None
                      | Some (k, r) \<Rightarrow>
                          (case skipWS r of [] \<Rightarrow> None
                           | x # r1 \<Rightarrow>
                               if x \<noteq> CHR '':'' then None
                               else (case parseValue d (skipWS r1) of None \<Rightarrow> None
                                     | Some (v, r2) \<Rightarrow>
                                         let raw = take (length (skipWS r1) - length r2) (skipWS r1)
                                         in (case skipWS r2 of [] \<Rightarrow> None
                                             | y # r3 \<Rightarrow>
                                                 if y = CHR '','' then
                                                   (case parseMembers d (n - 1) (skipWS r3) of
                                                      None \<Rightarrow> None
                                                    | Some (ms, r4) \<Rightarrow> Some ((k, raw, v) # ms, r4))
                                                 else if y = CHR ''}'' then Some ([(k, raw, v)], r3)
                                                 else None))))))"

declare parseValue.simps [simp del] parseElems.simps [simp del] parseMembers.simps [simp del]

text \<open>
  The whole input as one value with white space around it (\<open>checkValid\<close>); \<open>None\<close> is
  Go's \<open>SyntaxError\<close>.
\<close>

definition maxNestingDepth :: nat where
  "maxNestingDepth = 10000"

definition parseJSON :: "string \<Rightarrow> json option" where
  "parseJSON s =
     (case parseValue maxNestingDepth (skipWS s) of None \<Rightarrow> None
      | Some (v, r) \<Rightarrow> if skipWS r = [] then Some v else None)"

subsection \<open>The program's message types\<close>

text \<open>
  \<open>Seq\<close> and \<open>Type\<close> are the fields of the embedded \<open>ProtocolMessage\<close>. An \<open>int64\<close>
  is an \<open>int\<close> within its range. \<open>Body\<close> is a \<open>json.RawMessage\<close>; \<open>None\<close> is the nil
  slice. The only value the program stores in \<open>Arguments\<close> is an \<open>InitializeRequestArgs\<close>;
  \<open>None\<close> is the nil interface.
\<close>

record ProtocolMessage =
  Seq :: int
  Type :: string

record Response = ProtocolMessage +
  RequestSeq :: int
  Success :: bool
  Command :: string
  Message :: string
  Body :: "string option"

record InitializeRequestArgs =
  ClientID :: string
  ClientName :: string
  AdapterID :: string
  Locale :: string

record Request = ProtocolMessage +
  ReqCommand :: string
  Arguments :: "InitializeRequestArgs option"

record Capabilities =
  SupportsConfigurationDoneRequest :: bool
  SupportsFunctionBreakpoints :: bool
  SupportsConditionalBreakpoints :: bool
  SupportsHitConditionalBreakpoints :: bool
  SupportsEvaluateForHovers :: bool
  SupportsStepBack :: bool
  SupportsSetVariable :: bool
  SupportsRestartFrame :: bool
  SupportsGotoTargetsRequest :: bool
  SupportsStepInTargetsRequest :: bool
  SupportsCompletionsRequest :: bool
  CompletionTriggerCharacters :: "string list option"
  SupportsModulesRequest :: bool

definition zeroResponse :: Response where
  "zeroResponse =
     \<lparr>Seq = 0, Type = [], RequestSeq = 0, Success = False, Command = [], Message = [],
      Body = None\<rparr>"

definition zeroCapabilities :: Capabilities where
  "zeroCapabilities =
     \<lparr>SupportsConfigurationDoneRequest = False, SupportsFunctionBreakpoints = False,
      SupportsConditionalBreakpoints = False, SupportsHitConditionalBreakpoints = False,
      SupportsEvaluateForHovers = False, SupportsStepBack = False,
      SupportsSetVariable = False, SupportsRestartFrame = False,
      SupportsGotoTargetsRequest = False, SupportsStepInTargetsRequest = False,
      SupportsCompletionsRequest = False, CompletionTriggerCharacters = None,
      SupportsModulesRequest = False\<rparr>"

subsection \<open>json.Unmarshal into a struct\<close>

text \<open>
  A key names a field when it equals the field's JSON name, or else when the two are
  equal under case folding. Folding maps an ASCII letter to its capital, and U+017F
  (long s) and U+212A (the Kelvin sign) to S and K; no other rune folds to an ASCII
  character, so the model leaves every other byte as it is.
\<close>

fun foldName :: "string \<Rightarrow> string" where
  "foldName [] = []"
| "foldName (c # s) =
     (if between 0x61 0x7A c then char_of (byte c - 32) # foldName s
      else (case s of
              [] \<Rightarrow> [c]
            | d # s' \<Rightarrow>
                if c = CHR 0xC5 \<and> d = CHR 0xBF then CHR ''S'' # foldName s'
                else (case s' of
                        [] \<Rightarrow> c # foldName s
                      | e # s'' \<Rightarrow>
                          if c = CHR 0xE2 \<and> d = CHR 0x84 \<and> e = CHR 0xAA
                          then CHR ''K'' # foldName s''
                          else c # foldName s)))"

definition findField :: "string list \<Rightarrow> string \<Rightarrow> string option" where
  "findField names key =
     (if key \<in> set names then Some key
      else find (\<lambda>n. foldName n = foldName key) names)"

datatype json_error = SyntaxError | UnmarshalTypeError | MarshalerError

text \<open>
  Storing a value into a field of each kind the structs have. \<open>null\<close> leaves a bool,
  a string and an integer as they are. A number fits an \<open>int64\<close> field when
  \<open>strconv.ParseInt\<close> accepts its literal: digits only, within the range.
\<close>

definition storeInt :: "int \<Rightarrow> json \<Rightarrow> json_error + int" where
  "storeInt old v =
     (case v of
        JNull \<Rightarrow> Inr old
      | JNumber lit \<Rightarrow> (case Atoi lit of None \<Rightarrow> Inl UnmarshalTypeError | Some n \<Rightarrow> Inr n)
      | _ \<Rightarrow> Inl UnmarshalTypeError)"

definition storeString :: "string \<Rightarrow> json \<Rightarrow> json_error + string" where
  "storeString old v =
     (case v of JNull \<Rightarrow> Inr old | JString x \<Rightarrow> Inr x | _ \<Rightarrow> Inl UnmarshalTypeError)"

definition storeBool :: "bool \<Rightarrow> json \<Rightarrow> json_error + bool" where
  "storeBool old v =
     (case v of JNull \<Rightarrow> Inr old | JBool b \<Rightarrow> Inr b | _ \<Rightarrow> Inl UnmarshalTypeError)"

text \<open>
  An array into a \<open>[]string\<close>: element \<open>i\<close> is stored into the slice's element \<open>i\<close> when
  the slice already has one, into an empty string otherwise.
\<close>

fun storeElems :: "string list \<Rightarrow> json list \<Rightarrow> json_error + string list" where
  "storeElems old [] = Inr []"
| "storeElems old (v # vs) =
     (case storeString (case old of [] \<Rightarrow> [] | x # _ \<Rightarrow> x) v of
        Inl e \<Rightarrow> Inl e
      | Inr x \<Rightarrow>
          (case storeElems (tl old) vs of Inl e \<Rightarrow> Inl e | Inr xs \<Rightarrow> Inr (x # xs)))"

definition storeStrings :: "string list option \<Rightarrow> json \<Rightarrow> json_error + string list option" where
  "storeStrings old v =
     (case v of
        JNull \<Rightarrow> Inr None
      | JArray vs \<Rightarrow>
          (case storeElems (case old of None \<Rightarrow> [] | Some xs \<Rightarrow> xs) vs of
             Inl e \<Rightarrow> Inl e | Inr xs \<Rightarrow> Inr (Some xs))
      | _ \<Rightarrow> Inl UnmarshalTypeError)"

definition upd :: "json_error + 'a \<Rightarrow> ('a \<Rightarrow> 'r) \<Rightarrow> json_error + 'r" where
  "upd x f = (case x of Inl e \<Rightarrow> Inl e | Inr a \<Rightarrow> Inr (f a))"

text \<open>The members of an object are stored one after the other, a later one over an earlier.\<close>

fun storeMembers ::
  "('r \<Rightarrow> string \<times> string \<times> json \<Rightarrow> json_error + 'r) \<Rightarrow> 'r \<Rightarrow> (string \<times> string \<times> json) list
     \<Rightarrow> json_error + 'r" where
  "storeMembers f r [] = Inr r"
| "storeMembers f r (m # ms) =
     (case f r m of Inl e \<Rightarrow> Inl e | Inr r' \<Rightarrow> storeMembers f r' ms)"

definition unmarshalStruct ::
  "('r \<Rightarrow> string \<times> string \<times> json \<Rightarrow> json_error + 'r) \<Rightarrow> 'r \<Rightarrow> string \<Rightarrow> json_error + 'r" where
  "unmarshalStruct f zero data =
     (case parseJSON data of
        None \<Rightarrow> Inl SyntaxError
      | Some JNull \<Rightarrow> Inr zero
      | Some (JObject ms) \<Rightarrow> storeMembers f zero ms
      | Some _ \<Rightarrow> Inl UnmarshalTypeError)"

definition responseFields :: "string list" where
  "responseFields = [''seq'', ''type'', ''request_seq'', ''success'', ''command'', ''message'', ''body'']"

definition storeResponseField :: "Response \<Rightarrow> string \<times> string \<times> json \<Rightarrow> json_error + Response" where
  "storeResponseField r m =
     (case m of (key, raw, v) \<Rightarrow>
        (case findField responseFields key of
           None \<Rightarrow> Inr r
         | Some f \<Rightarrow>
             if f = ''seq'' then upd (storeInt (Seq r) v) (\<lambda>x. r\<lparr>Seq := x\<rparr>)
             else if f = ''type'' then upd (storeString (Type r) v) (\<lambda>x. r\<lparr>Type := x\<rparr>)
             else if f = ''request_seq'' then upd (storeInt (RequestSeq r) v) (\<lambda>x. r\<lparr>RequestSeq := x\<rparr>)
             else if f = ''success'' then upd (storeBool (Success r) v) (\<lambda>x. r\<lparr>Success := x\<rparr>)
             else if f = ''command'' then upd (storeString (Command r) v) (\<lambda>x. r\<lparr>Command := x\<rparr>)
             else if f = ''message'' then upd (storeString (Message r) v) (\<lambda>x. r\<lparr>Message := x\<rparr>)
             else Inr (r\<lparr>Body := Some raw\<rparr>)))"

definition unmarshalResponse :: "string \<Rightarrow> json_error + Response" where
  "unmarshalResponse data = unmarshalStruct storeResponseField zeroResponse data"

text \<open>
  The tags of \<open>Capabilities\<close> give no name (\<open>json:""\<close>), so each field goes by its Go
  name.
\<close>

definition capabilitiesFields :: "string list" where
  "capabilitiesFields =
     [''SupportsConfigurationDoneRequest'', ''SupportsFunctionBreakpoints'',
      ''SupportsConditionalBreakpoints'', ''SupportsHitConditionalBreakpoints'',
      ''SupportsEvaluateForHovers'', ''SupportsStepBack'', ''SupportsSetVariable'',
      ''SupportsRestartFrame'', ''SupportsGotoTargetsRequest'',
      ''SupportsStepInTargetsRequest'', ''SupportsCompletionsRequest'',
      ''CompletionTriggerCharacters'', ''SupportsModulesRequest'']"

definition storeCapabilitiesField ::
  "Capabilities \<Rightarrow> string \<times> string \<times> json \<Rightarrow> json_error + Capabilities" where
  "storeCapabilitiesField r m =
     (case m of (key, raw, v) \<Rightarrow>
        (case findField capabilitiesFields key of
           None \<Rightarrow> Inr r
         | Some f \<Rightarrow>
             if f = ''SupportsConfigurationDoneRequest'' then
               upd (storeBool (SupportsConfigurationDoneRequest r) v)
                 (\<lambda>x. r\<lparr>SupportsConfigurationDoneRequest := x\<rparr>)
             else if f = ''SupportsFunctionBreakpoints'' then
               upd (storeBool (SupportsFunctionBreakpoints r) v)
                 (\<lambda>x. r\<lparr>SupportsFunctionBreakpoints := x\<rparr>)
             else if f = ''SupportsConditionalBreakpoints'' then
               upd (storeBool (SupportsConditionalBreakpoints r) v)
                 (\<lambda>x. r\<lparr>SupportsConditionalBreakpoints := x\<rparr>)
             else if f = ''SupportsHitConditionalBreakpoints'' then
               upd (storeBool (SupportsHitConditionalBreakpoints r) v)
                 (\<lambda>x. r\<lparr>SupportsHitConditionalBreakpoints := x\<rparr>)
             else if f = ''SupportsEvaluateForHovers'' then
               upd (storeBool (SupportsEvaluateForHovers r) v)
                 (\<lambda>x. r\<lparr>SupportsEvaluateForHovers := x\<rparr>)
             else if f = ''SupportsStepBack'' then
               upd (storeBool (SupportsStepBack r) v) (\<lambda>x. r\<lparr>SupportsStepBack := x\<rparr>)
             else if f = ''SupportsSetVariable'' then
               upd (storeBool (SupportsSetVariable r) v) (\<lambda>x. r\<lparr>SupportsSetVariable := x\<rparr>)
             else if f = ''SupportsRestartFrame'' then
               upd (storeBool (SupportsRestartFrame r) v) (\<lambda>x. r\<lparr>SupportsRestartFrame := x\<rparr>)
             else if f = ''SupportsGotoTargetsRequest'' then
               upd (storeBool (SupportsGotoTargetsRequest r) v)
                 (\<lambda>x. r\<lparr>SupportsGotoTargetsRequest := x\<rparr>)
             else if f = ''SupportsStepInTargetsRequest'' then
               upd (storeBool (SupportsStepInTargetsRequest r) v)
                 (\<lambda>x. r\<lparr>SupportsStepInTargetsRequest := x\<rparr>)
             else if f = ''SupportsCompletionsRequest'' then
               upd (storeBool (SupportsCompletionsRequest r) v)
                 (\<lambda>x. r\<lparr>SupportsCompletionsRequest := x\<rparr>)
             else if f = ''CompletionTriggerCharacters'' then
               upd (storeStrings (CompletionTriggerCharacters r) v)
                 (\<lambda>x. r\<lparr>CompletionTriggerCharacters := x\<rparr>)
             else
               upd (storeBool (SupportsModulesRequest r) v)
                 (\<lambda>x. r\<lparr>SupportsModulesRequest := x\<rparr>)))"

definition unmarshalCapabilities :: "string \<Rightarrow> json_error + Capabilities" where
  "unmarshalCapabilities data = unmarshalStruct storeCapabilitiesField zeroCapabilities data"

subsection \<open>json.Marshal of the program's messages\<close>

text \<open>Decimal digits of a number, as \<open>strconv\<close> and the \<open>%d\<close> verb write them.\<close>

function digitsOf :: "nat \<Rightarrow> string" where
  "digitsOf n = (if n < 10 then [char_of (48 + n)] else digitsOf (n div 10) @ [char_of (48 + n mod 10)])"
  by pat_completeness auto
termination
  by (relation "measure id") auto

declare digitsOf.simps [simp del]

definition Itoa :: "int \<Rightarrow> string" where
  "Itoa i = (if i < 0 then CHR ''-'' # digitsOf (nat (- i)) else digitsOf (nat i))"

definition hexChar :: "nat \<Rightarrow> char" where
  "hexChar n = ''0123456789abcdef'' ! (n mod 16)"

text \<open>
  The characters a string keeps as they are (\<open>htmlSafeSet\<close>): printable ASCII and DEL
  but for the quote, the backslash and the three characters HTML reads.
\<close>

definition htmlSafe :: "char \<Rightarrow> bool" where
  "htmlSafe c \<longleftrightarrow>
     0x20 \<le> byte c \<and> byte c < 0x80 \<and> c \<noteq> CHR 0x22 \<and> c \<noteq> CHR 0x5C \<and>
     c \<noteq> CHR ''<'' \<and> c \<noteq> CHR ''>'' \<and> c \<noteq> CHR ''&''"

definition escapeByte :: "char \<Rightarrow> string" where
  "escapeByte c =
     (if c = CHR 0x22 \<or> c = CHR 0x5C then [CHR 0x5C, c]
      else if c = CHR 0x08 then [CHR 0x5C, CHR ''b'']
      else if c = CHR 0x0C then [CHR 0x5C, CHR ''f'']
      else if c = CHR 0x0A then [CHR 0x5C, CHR ''n'']
      else if c = CHR 0x0D then [CHR 0x5C, CHR ''r'']
      else if c = CHR 0x09 then [CHR 0x5C, CHR ''t'']
      else [CHR 0x5C, CHR ''u'', CHR ''0'', CHR ''0'', hexChar (byte c div 16), hexChar (byte c mod 16)])"

definition lineSep :: string where
  "lineSep = [CHR 0xE2, CHR 0x80, CHR 0xA8]"

definition paraSep :: string where
  "paraSep = [CHR 0xE2, CHR 0x80, CHR 0xA9]"

text \<open>
  The inside of a string literal, as the encoder writes it with HTML escaping on: an
  invalid UTF-8 byte becomes the escape of U+FFFD, U+2028 and U+2029 are escaped.
\<close>

function quoteBody :: "string \<Rightarrow> string" where
  "quoteBody s =
     (case s of [] \<Rightarrow> []
      | c # t \<Rightarrow>
          if byte c < 0x80 then
            (if htmlSafe c then c # quoteBody t else escapeByte c @ quoteBody t)
          else if utf8Len s = 0 then [CHR 0x5C] @ ''ufffd'' @ quoteBody t
          else if take 3 s = lineSep then [CHR 0x5C] @ ''u2028'' @ quoteBody (drop 3 s)
          else if take 3 s = paraSep then [CHR 0x5C] @ ''u2029'' @ quoteBody (drop 3 s)
          else take (utf8Len s) s @ quoteBody (drop (utf8Len s) s))"
  by pat_completeness auto
termination
  by (relation "measure length") auto

declare quoteBody.simps [simp del]

definition quoteString :: "string \<Rightarrow> string" where
  "quoteString s = [CHR 0x22] @ quoteBody s @ [CHR 0x22]"

text \<open>
  What the encoder makes of a \<open>json.RawMessage\<close>: the text must be valid JSON; white
  space between its tokens goes, and inside its strings the characters HTML reads,
  U+2028 and U+2029 are escaped.
\<close>

fun compactOut :: "string \<Rightarrow> string" and compactIn :: "string \<Rightarrow> string" where
  "compactOut [] = []"
| "compactOut (c # s) =
     (if isWS c then compactOut s
      else if c = CHR 0x22 then c # compactIn s
      else c # compactOut s)"
| "compactIn [] = []"
| "compactIn (c # s) =
     (if c = CHR 0x22 then c # compactOut s
      else if c = CHR 0x5C then (case s of [] \<Rightarrow> [c] | e # s' \<Rightarrow> c # e # compactIn s')
      else if c = CHR ''<'' \<or> c = CHR ''>'' \<or> c = CHR ''&'' then
        [CHR 0x5C, CHR ''u'', CHR ''0'', CHR ''0'', hexChar (byte c div 16), hexChar (byte c mod 16)]
          @ compactIn s
      else (case s of
              d # e # s' \<Rightarrow>
                if c = CHR 0xE2 \<and> d = CHR 0x80 \<and> (e = CHR 0xA8 \<or> e = CHR 0xA9) then
                  [CHR 0x5C, CHR ''u'', CHR ''2'', CHR ''0'', CHR ''2'', hexChar (byte e mod 16)]
                    @ compactIn s'
                else c # compactIn s
            | _ \<Rightarrow> c # compactIn s))"

definition compact :: "string \<Rightarrow> string option" where
  "compact raw = (if parseJSON raw = None then None else Some (compactOut raw))"

definition marshalField :: "string \<Rightarrow> string \<Rightarrow> string" where
  "marshalField name v = quoteString name @ '':'' @ v"

fun joinComma :: "string list \<Rightarrow> string" where
  "joinComma [] = []"
| "joinComma [x] = x"
| "joinComma (x # y # ys) = x @ '','' @ joinComma (y # ys)"

definition marshalObject :: "string list \<Rightarrow> string" where
  "marshalObject fs = ''{'' @ joinComma fs @ ''}''"

definition marshalBool :: "bool \<Rightarrow> string" where
  "marshalBool b = (if b then ''true'' else ''false'')"

text \<open>A field tagged \<open>omitempty\<close> is left out when it is the empty string.\<close>

definition omitempty :: "string \<Rightarrow> string \<Rightarrow> string list" where
  "omitempty name v = (if v = [] then [] else [marshalField name (quoteString v)])"

definition marshalInitializeRequestArgs :: "InitializeRequestArgs \<Rightarrow> string" where
  "marshalInitializeRequestArgs a =
     marshalObject
       (omitempty ''clientID'' (ClientID a) @ omitempty ''clientName'' (ClientName a) @
        [marshalField ''adapterID'' (quoteString (AdapterID a))] @
        omitempty ''locale'' (Locale a))"

definition marshalRequest :: "Request \<Rightarrow> string" where
  "marshalRequest r =
     marshalObject
       ([marshalField ''seq'' (Itoa (Seq r)),
         marshalField ''type'' (quoteString (Type r)),
         marshalField ''command'' (quoteString (ReqCommand r))] @
        (case Arguments r of
           None \<Rightarrow> []
         | Some a \<Rightarrow> [marshalField ''arguments'' (marshalInitializeRequestArgs a)]))"

definition marshalResponse :: "Response \<Rightarrow> json_error + string" where
  "marshalResponse r =
     (case (case Body r of None \<Rightarrow> Some ''null'' | Some raw \<Rightarrow> compact raw) of
        None \<Rightarrow> Inl MarshalerError
      | Some b \<Rightarrow>
          Inr (marshalObject
                 [marshalField ''seq'' (Itoa (Seq r)),
                  marshalField ''type'' (quoteString (Type r)),
                  marshalField ''request_seq'' (Itoa (RequestSeq r)),
                  marshalField ''success'' (marshalBool (Success r)),
                  marshalField ''command'' (quoteString (Command r)),
                  marshalField ''message'' (quoteString (Message r)),
                  marshalField ''body'' b]))"

text \<open>The values \<open>sendMessage\<close> is given: a message of either of the program's two types.\<close>

datatype message = MsgRequest Request | MsgResponse Response

definition json_Marshal :: "message \<Rightarrow> json_error + string" where
  "json_Marshal m =
     (case m of MsgRequest r \<Rightarrow> Inr (marshalRequest r) | MsgResponse r \<Rightarrow> marshalResponse r)"

section \<open>The program's state\<close>

text \<open>
  The two package-level variables, and what the program does to the world around
  it: the channels it has made (numbered in the order of their making), the values sent
  on them, the channels closed, the lines logged and the bytes written to the
  connection. A send on a channel is recorded when it completes; the channels are
  unbuffered, so it completes when the waiting goroutine receives the value.
\<close>

datatype log_entry = NoContentLength | FailedToSendMessage | LogFatal fatal | LogResponse Response

record state =
  seqCounter :: int
  responseChans :: "int \<rightharpoonup> nat"
  chansMade :: nat
  sent :: "(nat \<times> Response) list"
  closed :: "nat list"
  logs :: "log_entry list"
  written :: string

definition initialState :: state where
  "initialState =
     \<lparr>seqCounter = 0, responseChans = Map.empty, chansMade = 0, sent = [], closed = [],
      logs = [], written = []\<rparr>"

section \<open>listen\<close>

definition CRLF :: string where
  "CRLF = [CHR 0x0D, CHR 0x0A]"

lemma read_headers_length:
  "read_headers fin headers s = HBreak hs rest \<Longrightarrow> length rest < length s"
proof (induction fin headers s rule: read_headers.induct)
  case (1 fin headers s)
  show ?case
  proof (cases "ReadBytes s")
    case None
    with "1.prems" show ?thesis by (simp add: read_headers.simps split: if_splits)
  next
    case (Some p)
    obtain data r where p: "p = (data, r)" by (cases p)
    have lt: "length r < length s" using Some p by (auto dest: ReadBytes_length)
    show ?thesis
    proof (cases "length (TrimSpace data) = 0")
      case True
      with "1.prems" Some p lt show ?thesis by (simp add: read_headers.simps)
    next
      case False
      show ?thesis
      proof (cases "header_entry (TrimSpace data)")
        case None
        with "1.prems" Some p False show ?thesis by (simp add: read_headers.simps)
      next
        case (Some e)
        obtain name v where e: "e = (name, v)" by (cases e)
        from "1.prems" \<open>ReadBytes s = Some p\<close> p False Some e
        have "read_headers fin (headers(name \<mapsto> v)) r = HBreak hs rest"
          by (simp add: read_headers.simps)
        then have "length rest < length r"
          by (rule "1.IH" [OF \<open>ReadBytes s = Some p\<close> p [symmetric] refl False Some e [symmetric]])
        with lt show ?thesis by simp
      qed
    qed
  qed
qed

text \<open>
  The value the program reads from \<open>headers["Content-Length"]\<close>: the empty string when
  the map has no such key.
\<close>

definition contentLengthHeader :: "(string \<rightharpoonup> string) \<Rightarrow> string" where
  "contentLengthHeader headers =
     (case headers ''Content-Length'' of None \<Rightarrow> [] | Some v \<Rightarrow> v)"

text \<open>
  \<open>make([]byte, n)\<close> (line 114) panics with \<open>makeslice: len out of range\<close> when \<open>n\<close> is
  negative or beyond the run-time's allocation limit, which is \<open>2^48\<close> bytes (the
  number below) on the 64-bit platforms. Up to that limit the model takes the memory to be there.
\<close>

definition maxAlloc :: int where
  "maxAlloc = 281474976710656"

text \<open>
  One turn of the outer loop up to the body (lines 86 to 120): the header block, the
  length, the body.
\<close>

datatype frame_result =
    FrameBody string string
  | FrameSkipped string
  | FrameReturn
  | FrameFatal fatal
  | FramePanic panic

definition read_frame :: "io_error \<Rightarrow> string \<Rightarrow> frame_result" where
  "read_frame fin s =
     (case read_headers fin Map.empty s of
        HReturn \<Rightarrow> FrameReturn
      | HFatal f \<Rightarrow> FrameFatal f
      | HPanic p \<Rightarrow> FramePanic p
      | HBreak headers rest \<Rightarrow>
          if contentLengthHeader headers = [] then FrameSkipped rest
          else (case Atoi (contentLengthHeader headers) of
                  None \<Rightarrow> FrameFatal BadContentLength
                | Some contentLength \<Rightarrow>
                    if contentLength < 0 \<or> maxAlloc < contentLength
                    then FramePanic MakesliceLenOutOfRange
                    else (case ReadFull fin rest (nat contentLength) of
                            Full body rest' \<Rightarrow> FrameBody body rest'
                          | ReadErr e \<Rightarrow> if e = EOF then FrameReturn else FrameFatal FailedToReadBody
                          | UnexpectedEOF \<Rightarrow> FrameFatal FailedToReadBody)))"

lemma read_frame_length:
  "read_frame fin s = FrameBody body rest \<Longrightarrow> length rest < length s"
  "read_frame fin s = FrameSkipped rest \<Longrightarrow> length rest < length s"
  by (auto simp: read_frame_def ReadFull_def
      split: headers_result.splits if_splits option.splits read_full.splits
      dest!: read_headers_length)

text \<open>
  Lines 127 to 131: a response whose \<open>request_seq\<close> is a key of \<open>responseChans\<close> is sent on
  that channel, the channel is closed and the key deleted. Nothing is done otherwise.
\<close>

definition dispatch :: "Response \<Rightarrow> state \<Rightarrow> state" where
  "dispatch resp st =
     (case responseChans st (RequestSeq resp) of
        None \<Rightarrow> st
      | Some ch \<Rightarrow>
          st\<lparr>sent := sent st @ [(ch, resp)],
             closed := closed st @ [ch],
             responseChans := (responseChans st)(RequestSeq resp := None)\<rparr>)"

text \<open>
  How the goroutine ends: \<open>listen\<close> returns, or \<open>log.Fatalf\<close> logs and exits the process,
  or a run-time panic stops it.
\<close>

datatype outcome = Returned | Fatal fatal | Panicked panic

definition logFatal :: "fatal \<Rightarrow> state \<Rightarrow> outcome \<times> state" where
  "logFatal f st = (Fatal f, st\<lparr>logs := logs st @ [LogFatal f]\<rparr>)"

function listen :: "io_error \<Rightarrow> string \<Rightarrow> state \<Rightarrow> outcome \<times> state" where
  "listen fin s st =
     (case read_frame fin s of
        FrameReturn \<Rightarrow> (Returned, st)
      | FrameFatal f \<Rightarrow> logFatal f st
      | FramePanic p \<Rightarrow> (Panicked p, st)
      | FrameSkipped rest \<Rightarrow> listen fin rest (st\<lparr>logs := logs st @ [NoContentLength]\<rparr>)
      | FrameBody body rest \<Rightarrow>
          (case unmarshalResponse body of
             Inl e \<Rightarrow> logFatal FailedToUnmarshal st
           | Inr resp \<Rightarrow> listen fin rest (dispatch resp st)))"
  by pat_completeness auto
termination
  by (relation "measure (\<lambda>(fin, s, st). length s)") (auto dest: read_frame_length)

declare listen.simps [simp del]

section \<open>sendMessage and initialize\<close>

text \<open>The bytes \<open>sendMessage\<close> writes for a body \<open>b\<close>.\<close>

definition frame :: "string \<Rightarrow> string" where
  "frame b = ''Content-Length: '' @ Itoa (int (length b)) @ CRLF @ CRLF @ b"

definition sendMessage :: "message \<Rightarrow> state \<Rightarrow> state" where
  "sendMessage msg st =
     (case json_Marshal msg of
        Inl e \<Rightarrow> st\<lparr>logs := logs st @ [FailedToSendMessage]\<rparr>
      | Inr b \<Rightarrow> st\<lparr>written := written st @ frame b\<rparr>)"

text \<open>\<open>atomic.AddInt64\<close> wraps around at the ends of the \<open>int64\<close> range.\<close>

definition wrap64 :: "int \<Rightarrow> int" where
  "wrap64 i = (i + 2 ^ 63) mod 2 ^ 64 - 2 ^ 63"

definition NewRequest :: "state \<Rightarrow> ProtocolMessage \<times> state" where
  "NewRequest st =
     (\<lparr>Seq = wrap64 (seqCounter st + 1), Type = ''request''\<rparr>,
      st\<lparr>seqCounter := wrap64 (seqCounter st + 1)\<rparr>)"

definition InitializeRequest :: "InitializeRequestArgs \<Rightarrow> state \<Rightarrow> Request \<times> state" where
  "InitializeRequest args st =
     (case NewRequest st of
        (pm, st') \<Rightarrow>
          (\<lparr>Seq = Seq pm, Type = Type pm, ReqCommand = ''initialize'', Arguments = Some args\<rparr>, st'))"

text \<open>
  \<open>initialize\<close> up to its receive (lines 148 to 152): the request is built, a channel
  is made and stored under the request's number, the request is sent. The result names
  the channel the receive of line 153 then waits on: the receive reads
  \<open>responseChans[req.Seq]\<close> before \<open>listen\<close> can have deleted the entry, which it does
  only once its send has been received.
\<close>

definition initialize_send :: "state \<Rightarrow> nat \<times> state" where
  "initialize_send st =
     (case InitializeRequest \<lparr>ClientID = [], ClientName = [], AdapterID = ''dap-cli'', Locale = []\<rparr> st of
        (req, st1) \<Rightarrow>
          let ch = chansMade st1;
              st2 = st1\<lparr>chansMade := Suc ch, responseChans := (responseChans st1)(Seq req \<mapsto> ch)\<rparr>
          in (ch, sendMessage (MsgRequest req) st2))"

text \<open>
  The rest of \<open>initialize\<close> (lines 153 to 162), given the value received. \<open>Inl\<close> is the
  \<open>log.Fatal\<close> that exits the process.
\<close>

definition initialize_finish :: "Response \<Rightarrow> state \<Rightarrow> (fatal + Capabilities) \<times> state" where
  "initialize_finish resp st =
     (if \<not> Success resp then
        (Inl InitializationFailed,
         st\<lparr>logs := logs st @ [LogResponse resp, LogFatal InitializationFailed]\<rparr>)
      else (case unmarshalCapabilities (case Body resp of None \<Rightarrow> [] | Some b \<Rightarrow> b) of
              Inl e \<Rightarrow>
                (Inl FailedToReadCapabilities,
                 st\<lparr>logs := logs st @ [LogFatal FailedToReadCapabilities]\<rparr>)
            | Inr caps \<Rightarrow> (Inr caps, st)))"

text \<open>The first value sent on a channel: what a single receive on it yields.\<close>

definition receive :: "nat \<Rightarrow> state \<Rightarrow> Response option" where
  "receive ch st = map_option snd (find (\<lambda>p. fst p = ch) (sent st))"

text \<open>
  JSON texts are written below with an apostrophe, or a backquote, where the text has a
  double quote: \<open>js\<close> puts the double quotes in.
\<close>

definition js :: "string \<Rightarrow> string" where
  "js s = map (\<lambda>c. if c = CHR 0x27 \<or> c = CHR 0x60 then CHR 0x22 else c) s"

section \<open>Header lines\<close>

lemma Split_no_colon: "CHR '':'' \<notin> set l \<Longrightarrow> Split l = [l]"
  by (induction l) auto

lemma header_entry_no_colon: "CHR '':'' \<notin> set l \<Longrightarrow> header_entry l = None"
  by (simp add: header_entry_def Split_no_colon)

lemma ReadBytes_line:
  "CHR 0x0A \<notin> set l \<Longrightarrow> ReadBytes (l @ CHR 0x0A # rest) = Some (l @ [CHR 0x0A], rest)"
  by (induction l) auto

lemma read_headers_block:
  assumes "\<forall>l\<in>set ls. CHR 0x0A \<notin> set l \<and> TrimSpace (l @ [CHR 0x0A]) \<noteq> [] \<and>
             header_entry (TrimSpace (l @ [CHR 0x0A])) \<noteq> None"
    and "CHR 0x0A \<notin> set b" and "TrimSpace (b @ [CHR 0x0A]) = []"
  shows "read_headers fin hs (concat (map (\<lambda>l. l @ [CHR 0x0A]) ls) @ b @ CHR 0x0A # rest) =
         HBreak (hs ++ map_of (rev (map (\<lambda>l. the (header_entry (TrimSpace (l @ [CHR 0x0A])))) ls))) rest"
  using assms(1)
proof (induction ls arbitrary: hs)
  case Nil
  show ?case using assms(2,3) by (simp add: read_headers.simps ReadBytes_line)
next
  case (Cons l ls)
  from Cons.prems obtain k v where kv: "header_entry (TrimSpace (l @ [CHR 0x0A])) = Some (k, v)"
    by fastforce
  from Cons.prems have nl: "CHR 0x0A \<notin> set l" and ne: "TrimSpace (l @ [CHR 0x0A]) \<noteq> []" by auto
  have step: "read_headers fin hs (concat (map (\<lambda>l. l @ [CHR 0x0A]) (l # ls)) @ b @ CHR 0x0A # rest) =
      read_headers fin (hs(k \<mapsto> v)) (concat (map (\<lambda>l. l @ [CHR 0x0A]) ls) @ b @ CHR 0x0A # rest)"
    using nl ne kv
    by (subst read_headers.simps) (simp add: ReadBytes_line)
  have ih: "read_headers fin (hs(k \<mapsto> v)) (concat (map (\<lambda>l. l @ [CHR 0x0A]) ls) @ b @ CHR 0x0A # rest) =
      HBreak (hs(k \<mapsto> v) ++ map_of (rev (map (\<lambda>l. the (header_entry (TrimSpace (l @ [CHR 0x0A])))) ls))) rest"
    using Cons.prems by (intro Cons.IH) simp
  have "hs(k \<mapsto> v) ++ map_of (rev (map (\<lambda>l. the (header_entry (TrimSpace (l @ [CHR 0x0A])))) ls)) =
    hs ++ map_of (rev (map (\<lambda>l. the (header_entry (TrimSpace (l @ [CHR 0x0A])))) (l # ls)))"
    using kv by (simp add: map_of_append)
  with step ih show ?case by simp
qed

lemma map_of_rev_last:
  "es = es1 @ (k, v) # es2 \<Longrightarrow> k \<notin> fst ` set es2 \<Longrightarrow> map_of (rev es) k = Some v"
proof -
  assume es: "es = es1 @ (k, v) # es2" and k: "k \<notin> fst ` set es2"
  have "map_of (rev es2) k = None" using k by (simp add: map_of_eq_None_iff)
  then show ?thesis using es by (simp add: map_of_append map_add_def)
qed

text \<open>
  C4. The claim: a header line is split at its first colon, so a value that has a colon
  of its own is kept whole. The code splits the line at every colon and takes the
  second part: of the line \<open>Foo: a:b\<close> it stores \<open>a\<close> under \<open>Foo\<close>, not \<open>a:b\<close>.
\<close>

theorem c4_value_cut_at_second_colon:
  "header_entry ''Foo: a:b'' = Some (''Foo'', ''a'') \<and>
   (case read_headers EOF Map.empty (''Foo: a:b'' @ CRLF @ CRLF) of
      HBreak headers rest \<Rightarrow> headers ''Foo'' | _ \<Rightarrow> None) = Some ''a''"
  by code_simp

text \<open>
  C5. The claim: a header line that is not blank and has no colon is rejected with an
  error of its own, and the split result is never indexed out of range. The code does
  index it: wherever such a line stands in a header block, \<open>parts[1]\<close> of the
  one-element split is a run-time panic, and \<open>listen\<close> ends with it.
\<close>

theorem c5_line_without_colon_panics:
  assumes "ReadBytes s = Some (data, rest)"
    and "TrimSpace data \<noteq> []"
    and "CHR '':'' \<notin> set (TrimSpace data)"
  shows "read_headers fin headers s = HPanic IndexOutOfRange \<and>
         listen fin s st = (Panicked IndexOutOfRange, st)"
proof -
  have h: "read_headers fin hs s = HPanic IndexOutOfRange" for hs
    using assms by (simp add: read_headers.simps header_entry_no_colon)
  have "listen fin s st = (Panicked IndexOutOfRange, st)"
    by (simp add: listen.simps read_frame_def h)
  with h show ?thesis by simp
qed

theorem c5_line_without_colon_panics_witness:
  "read_headers EOF Map.empty (''Foo'' @ CRLF) = HPanic IndexOutOfRange \<and>
   listen EOF (''Foo'' @ CRLF) initialState = (Panicked IndexOutOfRange, initialState)"
proof -
  have a: "ReadBytes (''Foo'' @ CRLF) = Some (''Foo'' @ CRLF, [])" by code_simp
  have b: "TrimSpace (''Foo'' @ CRLF) \<noteq> []" by code_simp
  have c: "CHR '':'' \<notin> set (TrimSpace (''Foo'' @ CRLF))" by code_simp
  show ?thesis using c5_line_without_colon_panics [OF a b c] by simp
qed

text \<open>
  C10. When a header block names a header on more than one line, the value of the last
  of those lines is the one in the header map when the block ends; for
  \<open>Content-Length\<close> it is the length of the body then read (a length within the
  allocation limit, with that many bytes to come). The block is the lines
  \<open>ls\<close> (each without its line feed, none blank, each with a colon) and the blank line
  \<open>b\<close>; \<open>l\<close> is the last line of \<open>ls\<close> that names \<open>k\<close>.
\<close>

theorem c10_last_header_wins:
  assumes "\<forall>l\<in>set ls. CHR 0x0A \<notin> set l \<and> TrimSpace (l @ [CHR 0x0A]) \<noteq> [] \<and>
             header_entry (TrimSpace (l @ [CHR 0x0A])) \<noteq> None"
    and "CHR 0x0A \<notin> set b" and "TrimSpace (b @ [CHR 0x0A]) = []"
    and "ls = ls1 @ l # ls2"
    and "header_entry (TrimSpace (l @ [CHR 0x0A])) = Some (k, v)"
    and "\<forall>l'\<in>set ls2. fst (the (header_entry (TrimSpace (l' @ [CHR 0x0A])))) \<noteq> k"
  shows "(\<exists>headers. read_headers fin hs (concat (map (\<lambda>l. l @ [CHR 0x0A]) ls) @ b @ CHR 0x0A # rest)
             = HBreak headers rest \<and> headers k = Some v) \<and>
         (k = ''Content-Length'' \<and> Atoi v = Some (int n) \<and> v \<noteq> [] \<and> int n \<le> maxAlloc \<and>
          n \<le> length rest \<longrightarrow>
          read_frame fin (concat (map (\<lambda>l. l @ [CHR 0x0A]) ls) @ b @ CHR 0x0A # rest)
             = FrameBody (take n rest) (drop n rest))"
proof -
  let ?e = "\<lambda>l. the (header_entry (TrimSpace (l @ [CHR 0x0A])))"
  let ?s = "concat (map (\<lambda>l. l @ [CHR 0x0A]) ls) @ b @ CHR 0x0A # rest"
  have es: "map ?e ls = map ?e ls1 @ (k, v) # map ?e ls2"
    using assms(4,5) by simp
  have notin: "k \<notin> fst ` set (map ?e ls2)"
    using assms(6) by auto
  have last: "map_of (rev (map ?e ls)) k = Some v"
    by (rule map_of_rev_last [OF es notin])
  have blk: "read_headers fin hs' ?s = HBreak (hs' ++ map_of (rev (map ?e ls))) rest" for hs'
    by (rule read_headers_block [OF assms(1,2,3)])
  have one: "\<exists>headers. read_headers fin hs ?s = HBreak headers rest \<and> headers k = Some v"
    using blk [of hs] last by (simp add: map_add_def)
  have two: "read_frame fin ?s = FrameBody (take n rest) (drop n rest)"
    if "k = ''Content-Length''" "Atoi v = Some (int n)" "v \<noteq> []" "int n \<le> maxAlloc" "n \<le> length rest"
  proof -
    have "contentLengthHeader (Map.empty ++ map_of (rev (map ?e ls))) = v"
      using last that(1) by (simp add: contentLengthHeader_def)
    then show ?thesis
      using that blk [of Map.empty] by (simp add: read_frame_def ReadFull_def)
  qed
  show ?thesis using one two by blast
qed

theorem c10_last_header_wins_witness:
  "(\<exists>headers. read_headers EOF Map.empty
       (''Content-Length: 5'' @ CRLF @ ''Content-Length: 7'' @ CRLF @ CRLF @ ''1234567xyz'')
         = HBreak headers ''1234567xyz'' \<and> headers ''Content-Length'' = Some ''7'') \<and>
   read_frame EOF (''Content-Length: 5'' @ CRLF @ ''Content-Length: 7'' @ CRLF @ CRLF @ ''1234567xyz'')
     = FrameBody ''1234567'' ''xyz''"
proof -
  let ?l1 = "''Content-Length: 5'' @ [CHR 0x0D]" and ?l2 = "''Content-Length: 7'' @ [CHR 0x0D]"
  have a: "\<forall>l\<in>set [?l1, ?l2]. CHR 0x0A \<notin> set l \<and> TrimSpace (l @ [CHR 0x0A]) \<noteq> [] \<and>
             header_entry (TrimSpace (l @ [CHR 0x0A])) \<noteq> None"
    by code_simp
  have b: "CHR 0x0A \<notin> set [CHR 0x0D]" by simp
  have c: "TrimSpace ([CHR 0x0D] @ [CHR 0x0A]) = []" by code_simp
  have d: "[?l1, ?l2] = [?l1] @ ?l2 # []" by simp
  have e: "header_entry (TrimSpace (?l2 @ [CHR 0x0A])) = Some (''Content-Length'', ''7'')" by code_simp
  have f: "\<forall>l'\<in>set []. fst (the (header_entry (TrimSpace (l' @ [CHR 0x0A])))) \<noteq> ''Content-Length''"
    by simp
  have g: "Atoi ''7'' = Some (int 7)" by code_simp
  have h: "int 7 \<le> maxAlloc" by (simp add: maxAlloc_def)
  show ?thesis
    using c10_last_header_wins [OF a b c d e f, of EOF Map.empty "''1234567xyz''" 7] g h
    by (simp add: CRLF_def)
qed

section \<open>Frames and their dispatch\<close>

lemma listen_frame:
  "read_frame fin s = FrameBody body rest \<Longrightarrow> unmarshalResponse body = Inr resp \<Longrightarrow>
   listen fin s st = listen fin rest (dispatch resp st)"
  by (subst listen.simps) simp

lemma listen_eof: "listen EOF [] st = (Returned, st)"
  by (simp add: listen.simps read_frame_def read_headers.simps)

lemma one_header_block:
  assumes "CHR 0x0A \<notin> set l" and "TrimSpace (l @ [CHR 0x0A]) \<noteq> []"
    and "header_entry (TrimSpace (l @ [CHR 0x0A])) = Some (k, v)"
  shows "read_headers fin Map.empty (l @ [CHR 0x0A] @ CRLF @ rest) = HBreak [k \<mapsto> v] rest"
proof -
  have b: "TrimSpace ([CHR 0x0D] @ [CHR 0x0A]) = []" by code_simp
  have "read_headers fin Map.empty (concat (map (\<lambda>l. l @ [CHR 0x0A]) [l]) @ [CHR 0x0D] @ CHR 0x0A # rest) =
         HBreak (Map.empty ++ map_of (rev (map (\<lambda>l. the (header_entry (TrimSpace (l @ [CHR 0x0A])))) [l]))) rest"
    by (rule read_headers_block) (use assms b in simp_all)
  then show ?thesis using assms(3) by (simp add: CRLF_def)
qed

text \<open>
  C2, as the claim has it: a response whose \<open>request_seq\<close> names no waiter is logged and
  discarded. The code logs nothing for it: after the one frame below, sent to a program
  that waits for nothing, the log is empty.
\<close>

theorem c2_unmatched_response_not_logged:
  "unmarshalResponse (js ''{'seq':9,'type':'response','request_seq':7,'success':true}'')
     = Inr (zeroResponse\<lparr>Seq := 9, Type := ''response'', RequestSeq := 7, Success := True\<rparr>) \<and>
   responseChans initialState 7 = None \<and>
   (case listen EOF (frame (js ''{'seq':9,'type':'response','request_seq':7,'success':true}'')) initialState of
      (out, st) \<Rightarrow> out = Returned \<and> logs st = [] \<and> sent st = [])"
  by code_simp

text \<open>
  C2, amended. For every response and every state of \<open>responseChans\<close>: when a channel is
  stored under the response's \<open>request_seq\<close>, the response is sent on it once, the
  channel is closed and the entry deleted, and nothing is logged; when none is, the
  state stays as it is (nothing is logged). In both cases every other entry and the
  values sent on every other channel stay as they were.
\<close>

theorem c2_resolve:
  "(responseChans st (RequestSeq resp) = Some ch \<longrightarrow>
      sent (dispatch resp st) = sent st @ [(ch, resp)] \<and>
      closed (dispatch resp st) = closed st @ [ch] \<and>
      responseChans (dispatch resp st) (RequestSeq resp) = None \<and>
      logs (dispatch resp st) = logs st) \<and>
   (responseChans st (RequestSeq resp) = None \<longrightarrow> dispatch resp st = st) \<and>
   (\<forall>k. k \<noteq> RequestSeq resp \<longrightarrow> responseChans (dispatch resp st) k = responseChans st k) \<and>
   (\<forall>c. responseChans st (RequestSeq resp) \<noteq> Some c \<longrightarrow>
        filter (\<lambda>p. fst p = c) (sent (dispatch resp st)) = filter (\<lambda>p. fst p = c) (sent st))"
  by (auto simp: dispatch_def split: option.splits)

theorem c2_resolve_witness:
  "(case initialize_send initialState of
      (ch, st) \<Rightarrow>
        responseChans st 1 = Some ch \<and>
        sent (dispatch (zeroResponse\<lparr>RequestSeq := 1\<rparr>) st) = sent st @ [(ch, zeroResponse\<lparr>RequestSeq := 1\<rparr>)] \<and>
        closed (dispatch (zeroResponse\<lparr>RequestSeq := 1\<rparr>) st) = closed st @ [ch] \<and>
        responseChans (dispatch (zeroResponse\<lparr>RequestSeq := 1\<rparr>) st) 1 = None \<and>
        responseChans st 7 = None \<and>
        dispatch (zeroResponse\<lparr>RequestSeq := 7\<rparr>) st = st \<and>
        responseChans (dispatch (zeroResponse\<lparr>RequestSeq := 7\<rparr>) st) 1 = Some ch)"
proof -
  obtain ch st where i: "initialize_send initialState = (ch, st)" by (cases "initialize_send initialState")
  have a: "responseChans st 1 = Some ch"
    using i by (auto simp: initialize_send_def InitializeRequest_def NewRequest_def initialState_def
        wrap64_def sendMessage_def json_Marshal_def Let_def)
  have b: "responseChans st 7 = None"
    using i by (auto simp: initialize_send_def InitializeRequest_def NewRequest_def initialState_def
        wrap64_def sendMessage_def json_Marshal_def Let_def)
  have r1: "RequestSeq (zeroResponse\<lparr>RequestSeq := 1\<rparr>) = 1" and r7: "RequestSeq (zeroResponse\<lparr>RequestSeq := 7\<rparr>) = 7"
    by simp_all
  show ?thesis
    using c2_resolve [of st "zeroResponse\<lparr>RequestSeq := 1\<rparr>" ch]
      c2_resolve [of st "zeroResponse\<lparr>RequestSeq := 7\<rparr>" ch] a b
    by (simp add: i)
qed

text \<open>
  C8, as the claim has it: only a message of type \<open>response\<close> is resolved against the
  waiters. The code never reads the type: an event that carries \<open>request_seq\<close> 1 is
  sent to the waiter of request 1.
\<close>

theorem c8_event_delivered_to_waiter:
  "(case initialize_send initialState of
      (ch, st) \<Rightarrow>
        responseChans st 1 = Some ch \<and>
        (case listen EOF (frame (js ''{'seq':5,'type':'event','event':'stopped','request_seq':1}'')) st of
           (out, st') \<Rightarrow>
             map_option Type (receive ch st') = Some ''event'' \<and> responseChans st' 1 = None))"
  by code_simp

text \<open>
  C8, amended. Every frame whose body decodes is resolved with the \<open>request_seq\<close> of the
  decoded value, whatever its \<open>type\<close>: when a channel is stored under it, the value is
  sent on that channel and the entry deleted.
\<close>

theorem c8_delivery_whatever_the_type:
  assumes "read_frame fin s = FrameBody body rest"
    and "unmarshalResponse body = Inr resp"
    and "responseChans st (RequestSeq resp) = Some ch"
  shows "listen fin s st = listen fin rest (dispatch resp st) \<and>
         sent (dispatch resp st) = sent st @ [(ch, resp)] \<and>
         responseChans (dispatch resp st) (RequestSeq resp) = None"
  using assms by (simp add: listen_frame dispatch_def)

theorem c8_delivery_whatever_the_type_witness:
  "listen EOF (frame (js ''{'seq':5,'type':'event','event':'stopped','request_seq':1}''))
       (snd (initialize_send initialState))
     = listen EOF [] (dispatch (zeroResponse\<lparr>Seq := 5, Type := ''event'', RequestSeq := 1\<rparr>)
         (snd (initialize_send initialState))) \<and>
   sent (dispatch (zeroResponse\<lparr>Seq := 5, Type := ''event'', RequestSeq := 1\<rparr>)
          (snd (initialize_send initialState)))
     = [(0, zeroResponse\<lparr>Seq := 5, Type := ''event'', RequestSeq := 1\<rparr>)]"
proof -
  let ?b = "js ''{'seq':5,'type':'event','event':'stopped','request_seq':1}''"
  let ?r = "zeroResponse\<lparr>Seq := 5, Type := ''event'', RequestSeq := 1\<rparr>"
  have a: "read_frame EOF (frame ?b) = FrameBody ?b []" by code_simp
  have b: "unmarshalResponse ?b = Inr ?r" by code_simp
  have c: "responseChans (snd (initialize_send initialState)) (RequestSeq ?r) = Some 0" by code_simp
  have d: "sent (snd (initialize_send initialState)) = []" by code_simp
  show ?thesis using c8_delivery_whatever_the_type [OF a b c] d by simp
qed

text \<open>
  C6, as the claim has it: with a \<open>Content-Length\<close> header in the block, the decoder
  fails with a fatal error exactly when the value is not numeric. The code treats an
  empty value as an absent header, warns and goes on to the next block; and it fails on
  a numeric value beyond the range of \<open>int\<close>.
\<close>

theorem c6_empty_value_is_skipped:
  "read_frame EOF (''Content-Length:'' @ CRLF @ CRLF @ ''rest'') = FrameSkipped ''rest'' \<and>
   read_frame EOF (''Content-Length: 99999999999999999999'' @ CRLF @ CRLF @ ''rest'')
     = FrameFatal BadContentLength"
  by code_simp

text \<open>
  C6, amended. At the end of a header block, with \<open>v\<close> the value the map holds for
  \<open>Content-Length\<close> (empty when the header is absent):
  \<^item> when \<open>v\<close> is empty, and only then, the frame is skipped: the loop logs the warning
    and goes on with the next block;
  \<^item> when \<open>v\<close> is not empty, the loop ends in the fatal \<open>bad Content-Length\<close> exactly
    when \<open>strconv.Atoi\<close> refuses \<open>v\<close> (not an optionally signed decimal numeral, or
    beyond \<open>int\<close>); the error is logged and the process exits;
  \<^item> on a value \<open>n \<ge> 0\<close> within the allocation limit, with \<open>n\<close> bytes to come, exactly
    those \<open>n\<close> bytes are the body, which goes to \<open>json.Unmarshal\<close> as it is: the loop
    ends in the fatal \<open>failed to unmarshal\<close> or dispatches the decoded value and goes on.
  Nothing is said of a negative value.
\<close>

theorem c6_content_length:
  assumes "read_headers fin Map.empty s = HBreak headers rest"
  shows "((\<exists>r. read_frame fin s = FrameSkipped r) \<longleftrightarrow> contentLengthHeader headers = []) \<and>
         (contentLengthHeader headers = [] \<longrightarrow>
            read_frame fin s = FrameSkipped rest \<and>
            listen fin s st = listen fin rest (st\<lparr>logs := logs st @ [NoContentLength]\<rparr>)) \<and>
         (contentLengthHeader headers \<noteq> [] \<longrightarrow>
            (read_frame fin s = FrameFatal BadContentLength \<longleftrightarrow>
               Atoi (contentLengthHeader headers) = None)) \<and>
         (contentLengthHeader headers \<noteq> [] \<and> Atoi (contentLengthHeader headers) = None \<longrightarrow>
            listen fin s st =
              (Fatal BadContentLength, st\<lparr>logs := logs st @ [LogFatal BadContentLength]\<rparr>)) \<and>
         (contentLengthHeader headers \<noteq> [] \<and> Atoi (contentLengthHeader headers) = Some (int n) \<and>
          int n \<le> maxAlloc \<and> n \<le> length rest \<longrightarrow>
            read_frame fin s = FrameBody (take n rest) (drop n rest) \<and>
            listen fin s st =
              (case unmarshalResponse (take n rest) of
                 Inl e \<Rightarrow> (Fatal FailedToUnmarshal, st\<lparr>logs := logs st @ [LogFatal FailedToUnmarshal]\<rparr>)
               | Inr resp \<Rightarrow> listen fin (drop n rest) (dispatch resp st)))"
proof -
  let ?v = "contentLengthHeader headers"
  have skip_iff: "(\<exists>r. read_frame fin s = FrameSkipped r) \<longleftrightarrow> ?v = []"
    using assms
    by (auto simp: read_frame_def ReadFull_def split: option.splits if_splits)
  have skip: "read_frame fin s = FrameSkipped rest" if "?v = []"
    using that assms by (simp add: read_frame_def)
  have skip_listen: "listen fin s st = listen fin rest (st\<lparr>logs := logs st @ [NoContentLength]\<rparr>)"
    if "?v = []"
    by (subst listen.simps) (simp add: skip [OF that])
  have fatal_iff: "read_frame fin s = FrameFatal BadContentLength \<longleftrightarrow> Atoi ?v = None"
    if "?v \<noteq> []"
    using that assms
    by (auto simp: read_frame_def ReadFull_def split: option.splits if_splits)
  have fatal_listen: "listen fin s st =
      (Fatal BadContentLength, st\<lparr>logs := logs st @ [LogFatal BadContentLength]\<rparr>)"
    if "?v \<noteq> []" "Atoi ?v = None"
  proof -
    have "read_frame fin s = FrameFatal BadContentLength" using that fatal_iff by simp
    then show ?thesis by (subst listen.simps) (simp add: logFatal_def)
  qed
  have body: "read_frame fin s = FrameBody (take n rest) (drop n rest)"
    if "?v \<noteq> []" "Atoi ?v = Some (int n)" "int n \<le> maxAlloc" "n \<le> length rest"
    using that assms by (simp add: read_frame_def ReadFull_def)
  have body_listen: "listen fin s st =
              (case unmarshalResponse (take n rest) of
                 Inl e \<Rightarrow> (Fatal FailedToUnmarshal, st\<lparr>logs := logs st @ [LogFatal FailedToUnmarshal]\<rparr>)
               | Inr resp \<Rightarrow> listen fin (drop n rest) (dispatch resp st))"
    if "read_frame fin s = FrameBody (take n rest) (drop n rest)"
    using that by (subst listen.simps) (simp add: logFatal_def split: sum.splits)
  show ?thesis
    using skip_iff skip skip_listen fatal_iff fatal_listen body body_listen by blast
qed

theorem c6_content_length_witness:
  "listen EOF (''Foo: bar'' @ CRLF @ CRLF) initialState
     = (Returned, initialState\<lparr>logs := [NoContentLength]\<rparr>) \<and>
   read_frame EOF (''Content-Length: abc'' @ CRLF @ CRLF @ ''rest'') = FrameFatal BadContentLength \<and>
   listen EOF (''Content-Length: abc'' @ CRLF @ CRLF @ ''rest'') initialState
     = (Fatal BadContentLength, initialState\<lparr>logs := [LogFatal BadContentLength]\<rparr>) \<and>
   read_frame EOF (''Content-Length: 2'' @ CRLF @ CRLF @ ''{}rest'') = FrameBody ''{}'' ''rest''"
proof -
  have a1: "CHR 0x0A \<notin> set (''Foo: bar'' @ [CHR 0x0D])"
    and a2: "TrimSpace ((''Foo: bar'' @ [CHR 0x0D]) @ [CHR 0x0A]) \<noteq> []"
    and a3: "header_entry (TrimSpace ((''Foo: bar'' @ [CHR 0x0D]) @ [CHR 0x0A])) = Some (''Foo'', ''bar'')"
    by code_simp+
  have b1: "CHR 0x0A \<notin> set (''Content-Length: abc'' @ [CHR 0x0D])"
    and b2: "TrimSpace ((''Content-Length: abc'' @ [CHR 0x0D]) @ [CHR 0x0A]) \<noteq> []"
    and b3: "header_entry (TrimSpace ((''Content-Length: abc'' @ [CHR 0x0D]) @ [CHR 0x0A]))
               = Some (''Content-Length'', ''abc'')"
    and b4: "Atoi ''abc'' = None"
    by code_simp+
  have c1: "CHR 0x0A \<notin> set (''Content-Length: 2'' @ [CHR 0x0D])"
    and c2: "TrimSpace ((''Content-Length: 2'' @ [CHR 0x0D]) @ [CHR 0x0A]) \<noteq> []"
    and c3: "header_entry (TrimSpace ((''Content-Length: 2'' @ [CHR 0x0D]) @ [CHR 0x0A]))
               = Some (''Content-Length'', ''2'')"
    and c4: "Atoi ''2'' = Some (int 2)"
    by code_simp+
  have m: "int 2 \<le> maxAlloc" by (simp add: maxAlloc_def)
  have l: "logs initialState = []" by (simp add: initialState_def)
  show ?thesis
    using c6_content_length [OF one_header_block [OF a1 a2 a3, of EOF "[]"], of initialState 0]
      c6_content_length [OF one_header_block [OF b1 b2 b3, of EOF "''rest''"], of initialState 0]
      c6_content_length [OF one_header_block [OF c1 c2 c3, of EOF "''{}rest''"], of initialState 2]
      b4 c4 m l listen_eof
    by (simp add: CRLF_def contentLengthHeader_def)
qed




section \<open>The handshake\<close>

text \<open>
  C9. The program starts with \<open>seqCounter\<close> 0, so the request of \<open>initialize\<close> has number
  1 and is written as the frame below. When the peer answers with the response of the
  scenario, \<open>listen\<close> sends it on the channel \<open>initialize\<close> waits on, and \<open>initialize\<close>
  returns capabilities whose \<open>SupportsConfigurationDoneRequest\<close> is true: the key of the
  body names the field under case folding.
\<close>

theorem c9_handshake_returns_capabilities:
  "(case initialize_send initialState of
      (ch, st) \<Rightarrow>
        written st =
          frame (js ''{'seq':1,'type':'request','command':'initialize','arguments':{'adapterID':'dap-cli'}}'') \<and>
        responseChans st 1 = Some ch \<and>
        (case listen EOF
                (frame (js ''{'seq':1,'type':'response','request_seq':1,'success':true,'command':'initialize','body':{'supportsConfigurationDoneRequest':true}}''))
                st of
           (out, st') \<Rightarrow>
             (case receive ch st' of
                None \<Rightarrow> False
              | Some resp \<Rightarrow>
                  (case fst (initialize_finish resp st') of
                     Inl e \<Rightarrow> False
                   | Inr caps \<Rightarrow> SupportsConfigurationDoneRequest caps))))"
  by code_simp

end
